theory Spec2Isabelle
  imports Complex_Main "HOL-Library.List_Lexorder" "HOL-Library.Char_ord"
begin

section \<open>Values taken from the orchestrator's API objects\<close>

text \<open>
  The exporter reads \<^verbatim>\<open>autoscaling/v2beta1\<close> objects. Their declarations live in the imported
  API package; the records below list the fields the exporter reads, with the optionality the
  package gives them: a Go pointer field is an \<open>option\<close>, a value field is always there.

  A \<^verbatim>\<open>resource.Quantity\<close> is read only through \<^verbatim>\<open>MilliValue()\<close>, so a quantity is
  represented by that \<^verbatim>\<open>int64\<close> number of milli-units. \<^verbatim>\<open>int32\<close> and \<^verbatim>\<open>int64\<close> numbers are
  \<open>int\<close>: the exporter does no integer arithmetic on them, it only converts them.

  A \<^verbatim>\<open>float64\<close> is modelled by the real number it denotes: \<^verbatim>\<open>float64(n)\<close> is \<open>real_of_int n\<close>
  and \<^verbatim>\<open>/ 1000\<close> is exact division. The rounding to the nearest double that both operations
  perform in Go is left out of the model.
\<close>

type_synonym Quantity = int
type_synonym float64 = real

datatype error =
    NilPointerDereference
  | InconsistentLabels
  | ServiceError string

record CrossVersionObjectReference =
  ref_Kind :: string
  ref_Name :: string
  ref_APIVersion :: string

record ObjectMetricSource =
  oms_Target :: CrossVersionObjectReference
  oms_MetricName :: string
  oms_TargetValue :: Quantity

record PodsMetricSource =
  pms_MetricName :: string
  pms_TargetAverageValue :: Quantity

record ResourceMetricSource =
  rms_Name :: string
  rms_TargetAverageUtilization :: "int option"
  rms_TargetAverageValue :: "Quantity option"

record ExternalMetricSource =
  ems_MetricName :: string
  ems_TargetValue :: "Quantity option"
  ems_TargetAverageValue :: "Quantity option"

record ObjectMetricStatus =
  ost_Target :: CrossVersionObjectReference
  ost_MetricName :: string
  ost_CurrentValue :: Quantity

record PodsMetricStatus =
  pst_MetricName :: string
  pst_CurrentAverageValue :: Quantity

record ResourceMetricStatus =
  rst_Name :: string
  rst_CurrentAverageUtilization :: "int option"
  rst_CurrentAverageValue :: Quantity

record ExternalMetricStatus =
  est_MetricName :: string
  est_CurrentValue :: Quantity
  est_CurrentAverageValue :: "Quantity option"

section \<open>The normalised metric record and its eight extractors\<close>

record commonMetrics =
  Kind :: string
  Name :: string
  MetricName :: string
  Value :: float64

text \<open>
  \<^verbatim>\<open>q.MilliValue()\<close> on a \<^verbatim>\<open>*resource.Quantity\<close>: the method reads through its receiver,
  so a nil pointer panics.
\<close>

definition MilliValue :: "Quantity option \<Rightarrow> error + int" where
  "MilliValue p = (case p of None \<Rightarrow> Inl NilPointerDereference | Some q \<Rightarrow> Inr q)"

text \<open>
  The extractors take the struct their pointer argument refers to; the caller's dispatch
  (\<open>projectSpecMetric\<close>, \<open>projectStatusMetric\<close> below) renders a nil argument, which panics at
  the first field read.
\<close>

definition ParseObjectSpec :: "ObjectMetricSource \<Rightarrow> commonMetrics" where
  "ParseObjectSpec m =
     \<lparr>Kind = ref_Kind (oms_Target m),
      Name = ref_Name (oms_Target m),
      MetricName = oms_MetricName m,
      Value = real_of_int (oms_TargetValue m) / 1000\<rparr>"

definition ParsePodsSpec :: "PodsMetricSource \<Rightarrow> commonMetrics" where
  "ParsePodsSpec m =
     \<lparr>Kind = ''Pod'',
      Name = ''-'',
      MetricName = pms_MetricName m,
      Value = real_of_int (pms_TargetAverageValue m) / 1000\<rparr>"

definition ParseResourceSpec :: "ResourceMetricSource \<Rightarrow> error + commonMetrics" where
  "ParseResourceSpec m =
     (case (if rms_TargetAverageUtilization m = None
            then (case MilliValue (rms_TargetAverageValue m) of
                    Inl e \<Rightarrow> Inl e
                  | Inr q \<Rightarrow> Inr (real_of_int q / 1000))
            else Inr (real_of_int (the (rms_TargetAverageUtilization m)))) of
        Inl e \<Rightarrow> Inl e
      | Inr t \<Rightarrow>
          Inr \<lparr>Kind = ''Resource'',
               Name = rms_Name m,
               MetricName = ''-'',
               Value = t\<rparr>)"

definition ParseExternalSpec :: "ExternalMetricSource \<Rightarrow> error + commonMetrics" where
  "ParseExternalSpec m =
     (case (if ems_TargetAverageValue m = None
            then (case MilliValue (ems_TargetValue m) of
                    Inl e \<Rightarrow> Inl e
                  | Inr q \<Rightarrow> Inr (real_of_int q / 1000))
            else (case MilliValue (ems_TargetAverageValue m) of
                    Inl e \<Rightarrow> Inl e
                  | Inr q \<Rightarrow> Inr (real_of_int q / 1000))) of
        Inl e \<Rightarrow> Inl e
      | Inr t \<Rightarrow>
          Inr \<lparr>Kind = ''External'',
               Name = ''-'',
               MetricName = ems_MetricName m,
               Value = t\<rparr>)"

definition ParseObjectStatus :: "ObjectMetricStatus \<Rightarrow> commonMetrics" where
  "ParseObjectStatus m =
     \<lparr>Kind = ref_Kind (ost_Target m),
      Name = ref_Name (ost_Target m),
      MetricName = ost_MetricName m,
      Value = real_of_int (ost_CurrentValue m) / 1000\<rparr>"

definition ParsePodsStatus :: "PodsMetricStatus \<Rightarrow> commonMetrics" where
  "ParsePodsStatus m =
     \<lparr>Kind = ''Pod'',
      Name = ''-'',
      MetricName = pst_MetricName m,
      Value = real_of_int (pst_CurrentAverageValue m) / 1000\<rparr>"

definition ParseResourceStatus :: "ResourceMetricStatus \<Rightarrow> commonMetrics" where
  "ParseResourceStatus m =
     \<lparr>Kind = ''Resource'',
      Name = rst_Name m,
      MetricName = ''-'',
      Value = (if rst_CurrentAverageUtilization m = None
               then real_of_int (rst_CurrentAverageValue m) / 1000
               else real_of_int (the (rst_CurrentAverageUtilization m)))\<rparr>"

definition ParseExternalStatus :: "ExternalMetricStatus \<Rightarrow> commonMetrics" where
  "ParseExternalStatus m =
     \<lparr>Kind = ''External'',
      Name = ''-'',
      MetricName = est_MetricName m,
      Value = (if est_CurrentAverageValue m = None
               then real_of_int (est_CurrentValue m) / 1000
               else real_of_int (the (est_CurrentAverageValue m)) / 1000)\<rparr>"

section \<open>Label sets\<close>

text \<open>
  \<^verbatim>\<open>prometheus.Labels\<close> is a Go \<^verbatim>\<open>map[string]string\<close>: a finite map from label names to
  label values.
\<close>

type_synonym Labels = "string \<rightharpoonup> string"

definition MergeLabels :: "Labels \<Rightarrow> Labels \<Rightarrow> Labels" where
  "MergeLabels m1 m2 = (Map.empty ++ m1) ++ m2"

record HorizontalPodAutoscalerCondition =
  cond_Type :: string
  cond_Status :: string
  cond_Reason :: string
  cond_Message :: string

definition ConditionTrue :: string where
  "ConditionTrue = ''True''"

definition ConditionFalse :: string where
  "ConditionFalse = ''False''"

text \<open>
  \<^verbatim>\<open>fmt.Sprintf("%v", s)\<close> of a value whose type is a string type with no \<^verbatim>\<open>String\<close>
  method is the string itself.
\<close>

definition MakeAnnotationCondLabels ::
  "HorizontalPodAutoscalerCondition \<Rightarrow> Labels \<times> Labels" where
  "MakeAnnotationCondLabels cond =
     (let labelForward =
            [''cond_status'' \<mapsto> cond_Status cond,
             ''cond_reason'' \<mapsto> cond_Reason cond,
             ''cond_message'' \<mapsto> cond_Message cond];
          statusReverse =
            (if cond_Status cond = ConditionTrue then ConditionFalse else ConditionTrue);
          labelReverse =
            [''cond_status'' \<mapsto> statusReverse,
             ''cond_reason'' \<mapsto> [],
             ''cond_message'' \<mapsto> []]
      in (labelForward, labelReverse))"

definition ParseCommonMetrics :: "commonMetrics \<Rightarrow> float64 \<times> Labels" where
  "ParseCommonMetrics m =
     (Value m,
      [''metric_kind'' \<mapsto> Kind m,
       ''metric_name'' \<mapsto> Name m,
       ''metric_metricname'' \<mapsto> MetricName m])"

section \<open>The registry of gauge vectors\<close>

datatype gauge =
    HpaCurrentPodsNum
  | HpaDesiredPodsNum
  | HpaMinPodsNum
  | HpaMaxPodsNum
  | HpaLastScaleSecond
  | HpaCurrentMetricsValue
  | HpaTargetMetricsValue
  | HpaAbleToScale
  | HpaScalingActive
  | HpaScalingLimited

definition baseLabels :: "string list" where
  "baseLabels = [''hpa_name'', ''hpa_namespace'', ''ref_kind'', ''ref_name'', ''ref_apiversion'']"

definition metricLabels :: "string list" where
  "metricLabels = [''metric_kind'', ''metric_name'', ''metric_metricname'']"

definition annoLabels :: "string list" where
  "annoLabels = [''cond_status'', ''cond_reason'', ''cond_message'']"

text \<open>The label names each gauge vector is declared with.\<close>

fun variableLabels :: "gauge \<Rightarrow> string list" where
  "variableLabels HpaCurrentPodsNum = baseLabels"
| "variableLabels HpaDesiredPodsNum = baseLabels"
| "variableLabels HpaMinPodsNum = baseLabels"
| "variableLabels HpaMaxPodsNum = baseLabels"
| "variableLabels HpaLastScaleSecond = baseLabels"
| "variableLabels HpaCurrentMetricsValue = baseLabels @ metricLabels"
| "variableLabels HpaTargetMetricsValue = baseLabels @ metricLabels"
| "variableLabels HpaAbleToScale = baseLabels @ annoLabels"
| "variableLabels HpaScalingActive = baseLabels @ annoLabels"
| "variableLabels HpaScalingLimited = baseLabels @ annoLabels"

definition collectors :: "gauge list" where
  "collectors =
     [HpaCurrentPodsNum, HpaDesiredPodsNum, HpaMinPodsNum, HpaMaxPodsNum, HpaLastScaleSecond,
      HpaCurrentMetricsValue, HpaTargetMetricsValue,
      HpaAbleToScale, HpaScalingActive, HpaScalingLimited]"

text \<open>
  A gauge vector holds one value per combination of label values, the values listed in the
  order of the declared label names. The registry is the ten package-level vectors.
\<close>

type_synonym GaugeVec = "string list \<rightharpoonup> float64"
type_synonym registry = "gauge \<Rightarrow> GaugeVec"

definition ResetAllMetric :: "registry \<Rightarrow> registry" where
  "ResetAllMetric reg = fold (\<lambda>c r. r(c := Map.empty)) collectors reg"

text \<open>
  \<^verbatim>\<open>vec.With(labels).Set(v)\<close>. The metrics library panics in \<^verbatim>\<open>With\<close> unless the label map
  has exactly the declared names (as many entries as declared names, and every declared name
  among them; the declared names of each vector are distinct). Otherwise the value stored
  for that combination of label values is created or overwritten. The library also refuses
  label values that are not valid UTF-8; the strings of the API objects are taken to be
  valid.
\<close>

definition labelValues :: "gauge \<Rightarrow> Labels \<Rightarrow> string list" where
  "labelValues g labels = map (\<lambda>n. the (labels n)) (variableLabels g)"

definition WithSet :: "gauge \<Rightarrow> Labels \<Rightarrow> float64 \<Rightarrow> registry \<Rightarrow> error + registry" where
  "WithSet g labels v reg =
     (if dom labels = set (variableLabels g)
      then Inr (reg(g := (reg g)(labelValues g labels \<mapsto> v)))
      else Inl InconsistentLabels)"

section \<open>Projection of one autoscaler\<close>

definition bindE :: "error + 'a \<Rightarrow> ('a \<Rightarrow> error + 'b) \<Rightarrow> error + 'b" where
  "bindE x f = (case x of Inl e \<Rightarrow> Inl e | Inr a \<Rightarrow> f a)"

text \<open>A \<^verbatim>\<open>for ... range\<close> loop whose body may panic: the first panic ends the loop.\<close>

fun forRange :: "('a \<Rightarrow> 's \<Rightarrow> error + 's) \<Rightarrow> 'a list \<Rightarrow> 's \<Rightarrow> error + 's" where
  "forRange body [] s = Inr s"
| "forRange body (x # xs) s =
     (case body x s of Inl e \<Rightarrow> Inl e | Inr s' \<Rightarrow> forRange body xs s')"

record MetricSpec =
  msp_Type :: string
  msp_Object :: "ObjectMetricSource option"
  msp_Pods :: "PodsMetricSource option"
  msp_Resource :: "ResourceMetricSource option"
  msp_External :: "ExternalMetricSource option"

record MetricStatus =
  mst_Type :: string
  mst_Object :: "ObjectMetricStatus option"
  mst_Pods :: "PodsMetricStatus option"
  mst_Resource :: "ResourceMetricStatus option"
  mst_External :: "ExternalMetricStatus option"

record ObjectMeta =
  meta_Name :: string
  meta_Namespace :: string

record HorizontalPodAutoscalerSpec =
  ScaleTargetRef :: CrossVersionObjectReference
  MinReplicas :: "int option"
  MaxReplicas :: int
  Metrics :: "MetricSpec list"

text \<open>\<open>LastScaleTime\<close> holds what \<^verbatim>\<open>LastScaleTime.Unix()\<close> returns, when the pointer is set.\<close>

record HorizontalPodAutoscalerStatus =
  LastScaleTime :: "int option"
  CurrentReplicas :: int
  DesiredReplicas :: int
  CurrentMetrics :: "MetricStatus list"
  Conditions :: "HorizontalPodAutoscalerCondition list"

record HorizontalPodAutoscaler =
  ObjectMeta :: ObjectMeta
  Spec :: HorizontalPodAutoscalerSpec
  Status :: HorizontalPodAutoscalerStatus

definition ObjectMetricSourceType :: string where
  "ObjectMetricSourceType = ''Object''"

definition PodsMetricSourceType :: string where
  "PodsMetricSourceType = ''Pods''"

definition ResourceMetricSourceType :: string where
  "ResourceMetricSourceType = ''Resource''"

definition ExternalMetricSourceType :: string where
  "ExternalMetricSourceType = ''External''"

definition AbleToScale :: string where
  "AbleToScale = ''AbleToScale''"

definition ScalingActive :: string where
  "ScalingActive = ''ScalingActive''"

definition ScalingLimited :: string where
  "ScalingLimited = ''ScalingLimited''"

definition setMetric :: "gauge \<Rightarrow> Labels \<Rightarrow> commonMetrics \<Rightarrow> registry \<Rightarrow> error + registry" where
  "setMetric g baseLabel m reg =
     (let (v, l) = ParseCommonMetrics m
      in WithSet g (MergeLabels baseLabel l) v reg)"

text \<open>The body of the loop over \<^verbatim>\<open>a.Spec.Metrics\<close> (main.go, lines 85 to 106).\<close>

definition projectSpecMetric :: "Labels \<Rightarrow> MetricSpec \<Rightarrow> registry \<Rightarrow> error + registry" where
  "projectSpecMetric baseLabel metric reg =
     (if msp_Type metric = ObjectMetricSourceType then
        (case msp_Object metric of
           None \<Rightarrow> Inl NilPointerDereference
         | Some s \<Rightarrow> setMetric HpaTargetMetricsValue baseLabel (ParseObjectSpec s) reg)
      else if msp_Type metric = PodsMetricSourceType then
        (case msp_Pods metric of
           None \<Rightarrow> Inl NilPointerDereference
         | Some s \<Rightarrow> setMetric HpaTargetMetricsValue baseLabel (ParsePodsSpec s) reg)
      else if msp_Type metric = ResourceMetricSourceType then
        (case msp_Resource metric of
           None \<Rightarrow> Inl NilPointerDereference
         | Some s \<Rightarrow>
             bindE (ParseResourceSpec s)
               (\<lambda>m. setMetric HpaTargetMetricsValue baseLabel m reg))
      else if msp_Type metric = ExternalMetricSourceType then
        (case msp_External metric of
           None \<Rightarrow> Inl NilPointerDereference
         | Some s \<Rightarrow>
             bindE (ParseExternalSpec s)
               (\<lambda>m. setMetric HpaTargetMetricsValue baseLabel m reg))
      else Inr reg)"

text \<open>The body of the loop over \<^verbatim>\<open>a.Status.CurrentMetrics\<close> (lines 108 to 129).\<close>

definition projectStatusMetric :: "Labels \<Rightarrow> MetricStatus \<Rightarrow> registry \<Rightarrow> error + registry" where
  "projectStatusMetric baseLabel metric reg =
     (if mst_Type metric = ObjectMetricSourceType then
        (case mst_Object metric of
           None \<Rightarrow> Inl NilPointerDereference
         | Some s \<Rightarrow> setMetric HpaCurrentMetricsValue baseLabel (ParseObjectStatus s) reg)
      else if mst_Type metric = PodsMetricSourceType then
        (case mst_Pods metric of
           None \<Rightarrow> Inl NilPointerDereference
         | Some s \<Rightarrow> setMetric HpaCurrentMetricsValue baseLabel (ParsePodsStatus s) reg)
      else if mst_Type metric = ResourceMetricSourceType then
        (case mst_Resource metric of
           None \<Rightarrow> Inl NilPointerDereference
         | Some s \<Rightarrow> setMetric HpaCurrentMetricsValue baseLabel (ParseResourceStatus s) reg)
      else if mst_Type metric = ExternalMetricSourceType then
        (case mst_External metric of
           None \<Rightarrow> Inl NilPointerDereference
         | Some s \<Rightarrow> setMetric HpaCurrentMetricsValue baseLabel (ParseExternalStatus s) reg)
      else Inr reg)"

text \<open>The body of the loop over \<^verbatim>\<open>a.Status.Conditions\<close> (lines 131 to 144).\<close>

definition setForwardReverse ::
  "gauge \<Rightarrow> Labels \<Rightarrow> Labels \<Rightarrow> Labels \<Rightarrow> registry \<Rightarrow> error + registry" where
  "setForwardReverse g baseLabel annoLabel annoLabelRev reg =
     bindE (WithSet g (MergeLabels baseLabel annoLabel) 1 reg)
       (\<lambda>reg. WithSet g (MergeLabels baseLabel annoLabelRev) 0 reg)"

definition projectCondition ::
  "Labels \<Rightarrow> HorizontalPodAutoscalerCondition \<Rightarrow> registry \<Rightarrow> error + registry" where
  "projectCondition baseLabel cond reg =
     (let (annoLabel, annoLabelRev) = MakeAnnotationCondLabels cond
      in if cond_Type cond = AbleToScale then
           setForwardReverse HpaAbleToScale baseLabel annoLabel annoLabelRev reg
         else if cond_Type cond = ScalingActive then
           setForwardReverse HpaScalingActive baseLabel annoLabel annoLabelRev reg
         else if cond_Type cond = ScalingLimited then
           setForwardReverse HpaScalingLimited baseLabel annoLabel annoLabelRev reg
         else Inr reg)"

definition makeBaseLabel :: "HorizontalPodAutoscaler \<Rightarrow> Labels" where
  "makeBaseLabel a =
     [''hpa_name'' \<mapsto> meta_Name (ObjectMeta a),
      ''hpa_namespace'' \<mapsto> meta_Namespace (ObjectMeta a),
      ''ref_kind'' \<mapsto> ref_Kind (ScaleTargetRef (Spec a)),
      ''ref_name'' \<mapsto> ref_Name (ScaleTargetRef (Spec a)),
      ''ref_apiversion'' \<mapsto> ref_APIVersion (ScaleTargetRef (Spec a))]"

text \<open>The five replica and last-scale statements (lines 75 to 83).\<close>

definition projectReplicas ::
  "Labels \<Rightarrow> HorizontalPodAutoscaler \<Rightarrow> registry \<Rightarrow> error + registry" where
  "projectReplicas baseLabel a reg =
     bindE (WithSet HpaCurrentPodsNum baseLabel (real_of_int (CurrentReplicas (Status a))) reg)
    (\<lambda>reg.
     bindE (WithSet HpaDesiredPodsNum baseLabel (real_of_int (DesiredReplicas (Status a))) reg)
    (\<lambda>reg.
     bindE (case MinReplicas (Spec a) of
              None \<Rightarrow> Inr reg
            | Some n \<Rightarrow> WithSet HpaMinPodsNum baseLabel (real_of_int n) reg)
    (\<lambda>reg.
     bindE (WithSet HpaMaxPodsNum baseLabel (real_of_int (MaxReplicas (Spec a))) reg)
    (\<lambda>reg.
     (case LastScaleTime (Status a) of
        None \<Rightarrow> Inr reg
      | Some t \<Rightarrow> WithSet HpaLastScaleSecond baseLabel (real_of_int t) reg)))))"

text \<open>The body of the loop over the fetched autoscalers (lines 66 to 145).\<close>

definition projectHpa :: "HorizontalPodAutoscaler \<Rightarrow> registry \<Rightarrow> error + registry" where
  "projectHpa a reg =
     (let baseLabel = makeBaseLabel a
      in bindE (projectReplicas baseLabel a reg)
        (\<lambda>reg.
         bindE (forRange (projectSpecMetric baseLabel) (Metrics (Spec a)) reg)
        (\<lambda>reg.
         bindE (forRange (projectStatusMetric baseLabel) (CurrentMetrics (Status a)) reg)
        (\<lambda>reg.
         forRange (projectCondition baseLabel) (Conditions (Status a)) reg))))"

section \<open>The metrics poll loop\<close>

text \<open>
  The command-line flags the two loops read, with the defaults of the constant block.
\<close>

record flags =
  MetricsInterval :: int
  LoggingInterval :: int
  LoggingTo :: string
  cwLogGroup :: string
  cwLogStream :: string

definition defaultFlags :: flags where
  "defaultFlags =
     \<lparr>MetricsInterval = 30,
      LoggingInterval = 60,
      LoggingTo = ''stdout'',
      cwLogGroup = ''hpa-exporter'',
      cwLogStream = ''condition-log''\<rparr>"

text \<open>
  What a loop does besides changing the registry or the log store, in the order it does it:
  the call that fetches the autoscaler list, a logged line, a sleep of so many seconds.
\<close>

datatype event =
    GetHpaListV2
  | LogErrorln error
  | LogInfoln string
  | Sleep int

text \<open>What \<^verbatim>\<open>GetHpaListV2()\<close> returned: the items and the error (\<open>None\<close> for nil).\<close>

type_synonym fetched = "HorizontalPodAutoscaler list \<times> error option"

text \<open>
  One pass through the body of the metrics loop (main.go, lines 59 to 147), given what the
  fetch returned. The \<^verbatim>\<open>continue\<close> of the error branch goes straight to the next pass. A panic
  of the projection ends the run.
\<close>

definition metricsIteration :: "flags \<Rightarrow> fetched \<Rightarrow> registry \<Rightarrow> event list \<times> (error + registry)" where
  "metricsIteration fl r reg =
     (case r of (hpa, err) \<Rightarrow>
        (case err of
           Some e \<Rightarrow> ([GetHpaListV2, LogErrorln e], Inr reg)
         | None \<Rightarrow>
             (case forRange projectHpa hpa (ResetAllMetric reg) of
                Inl p \<Rightarrow> ([GetHpaListV2], Inl p)
              | Inr reg' \<Rightarrow> ([GetHpaListV2, Sleep (MetricsInterval fl)], Inr reg'))))"

text \<open>
  The loop never ends by itself; a run is determined by what the successive fetches return,
  and the list holds those of the passes looked at.
\<close>

fun metricsLoop :: "flags \<Rightarrow> fetched list \<Rightarrow> registry \<Rightarrow> event list \<times> (error + registry)" where
  "metricsLoop fl [] reg = ([], Inr reg)"
| "metricsLoop fl (r # rs) reg =
     (case metricsIteration fl r reg of
        (ev, Inl p) \<Rightarrow> (ev, Inl p)
      | (ev, Inr reg') \<Rightarrow>
          (case metricsLoop fl rs reg' of (ev', res) \<Rightarrow> (ev @ ev', res)))"

section \<open>Log shipment\<close>

text \<open>
  The log-store client is an object of the imported SDK. The exporter uses three of its
  operations; they are taken as a parameter, a record of functions over the state \<open>'s\<close> of
  the store, each returning its answer and the state it leaves.
\<close>

record LogStream =
  ls_LogStreamName :: string
  ls_UploadSequenceToken :: "string option"

record InputLogEvent =
  ile_Message :: string
  ile_Timestamp :: int

record PutLogEventsInput =
  LogEvents :: "InputLogEvent list"
  LogGroupName :: string
  LogStreamName :: string
  SequenceToken :: "string option"

record 's CloudWatchLogs =
  DescribeLogStreams :: "string \<Rightarrow> string \<Rightarrow> 's \<Rightarrow> (error + LogStream list) \<times> 's"
  CreateLogStream :: "string \<Rightarrow> string \<Rightarrow> 's \<Rightarrow> error option \<times> 's"
  PutLogEvents :: "PutLogEventsInput \<Rightarrow> 's \<Rightarrow> error option \<times> 's"

record conditions =
  c_Name :: string
  c_Conditions :: "HorizontalPodAutoscalerCondition list"

text \<open>
  \<^verbatim>\<open>json.Marshal\<close> is a parameter: a function from the struct to the bytes or an error.
  The line the error branch prints to standard output is not part of the model.
\<close>

definition HpaConditionJsonString ::
  "(conditions \<Rightarrow> error + string) \<Rightarrow> HorizontalPodAutoscaler \<Rightarrow> string" where
  "HpaConditionJsonString marshal hpa =
     (let cond = \<lparr>c_Name = meta_Name (ObjectMeta hpa), c_Conditions = Conditions (Status hpa)\<rparr>
      in case marshal cond of
           Inl err \<Rightarrow> ''{}''
         | Inr jsonBytes \<Rightarrow> jsonBytes)"

definition createStream :: "flags \<Rightarrow> 's CloudWatchLogs \<Rightarrow> 's \<Rightarrow> error option \<times> 's" where
  "createStream fl cwSession s = CreateLogStream cwSession (cwLogGroup fl) (cwLogStream fl) s"

text \<open>
  \<^verbatim>\<open>token()\<close> returns the pair of its named results \<^verbatim>\<open>(token, err)\<close>. The second argument of
  \<open>DescribeLogStreams\<close> is the request's \<^verbatim>\<open>LogStreamNamePrefix\<close>.
\<close>

definition token ::
  "flags \<Rightarrow> 's CloudWatchLogs \<Rightarrow> 's \<Rightarrow> (string option \<times> error option) \<times> 's" where
  "token fl cwSession s =
     (case DescribeLogStreams cwSession (cwLogGroup fl) (cwLogStream fl) s of
        (Inl err, s') \<Rightarrow> ((None, Some err), s')
      | (Inr streams, s') \<Rightarrow>
          (case streams of
             [] \<Rightarrow> (case createStream fl cwSession s' of (err, s'') \<Rightarrow> ((None, err), s''))
           | x # _ \<Rightarrow> ((ls_UploadSequenceToken x, None), s')))"

text \<open>\<open>now\<close> is what \<^verbatim>\<open>time.Now().Unix()\<close> returns.\<close>

definition PutHPAConditionToCWLog ::
  "flags \<Rightarrow> 's CloudWatchLogs \<Rightarrow> (conditions \<Rightarrow> error + string) \<Rightarrow> int \<Rightarrow>
   HorizontalPodAutoscaler list \<Rightarrow> 's \<Rightarrow> error option \<times> 's" where
  "PutHPAConditionToCWLog fl cwSession marshal now hpa s =
     (case token fl cwSession s of
        ((t, Some e), s') \<Rightarrow> (Some e, s')
      | ((t, None), s') \<Rightarrow>
          (let timestamp = now * 1000;
               cwevent = map (\<lambda>a. \<lparr>ile_Message = HpaConditionJsonString marshal a,
                                    ile_Timestamp = timestamp\<rparr>) hpa;
               putEvent = \<lparr>LogEvents = cwevent,
                           LogGroupName = cwLogGroup fl,
                           LogStreamName = cwLogStream fl,
                           SequenceToken = t\<rparr>
           in PutLogEvents cwSession putEvent s'))"

text \<open>
  One pass through the body of the logging loop (main.go, lines 40 to 54). The call of
  \<^verbatim>\<open>PutHPAConditionToCWLog\<close> is a statement: what it returns is dropped.
\<close>

definition loggingIteration ::
  "flags \<Rightarrow> 's CloudWatchLogs \<Rightarrow> (conditions \<Rightarrow> error + string) \<Rightarrow> int \<Rightarrow>
   fetched \<Rightarrow> 's \<Rightarrow> event list \<times> 's" where
  "loggingIteration fl cwSession marshal now r s =
     (case r of (hpa, err) \<Rightarrow>
        (case err of
           Some e \<Rightarrow> ([GetHpaListV2, LogErrorln e], s)
         | None \<Rightarrow>
             (if LoggingTo fl = ''cwlogs'' then
                (case PutHPAConditionToCWLog fl cwSession marshal now hpa s of
                   (_, s') \<Rightarrow> ([GetHpaListV2, Sleep (LoggingInterval fl)], s'))
              else
                (GetHpaListV2 # map (\<lambda>a. LogInfoln (HpaConditionJsonString marshal a)) hpa
                   @ [Sleep (LoggingInterval fl)], s))))"

fun loggingLoop ::
  "flags \<Rightarrow> 's CloudWatchLogs \<Rightarrow> (conditions \<Rightarrow> error + string) \<Rightarrow>
   (int \<times> fetched) list \<Rightarrow> 's \<Rightarrow> event list \<times> 's" where
  "loggingLoop fl cwSession marshal [] s = ([], s)"
| "loggingLoop fl cwSession marshal ((now, r) # rs) s =
     (case loggingIteration fl cwSession marshal now r s of
        (ev, s') \<Rightarrow>
          (case loggingLoop fl cwSession marshal rs s' of (ev', s'') \<Rightarrow> (ev @ ev', s'')))"

section \<open>Two log stores to run the shipment against\<close>

text \<open>
  The exporter's code stops at the client's three operations. To state what a shipment does
  to a store, the store itself has to be described; the following is the behaviour of the
  log service as far as the shipment depends on it.

  A store holds the streams of one log group, each with the batches it has accepted, and a
  record of the requests it has received.
  \<^item> \<open>DescribeLogStreams\<close> answers with the streams whose name starts with the given prefix,
    ordered by name, each with the sequence token its next append has to carry: none for a
    stream that has accepted no batch.
  \<^item> \<open>CreateLogStream\<close> adds an empty stream, unless a stream of that name exists.
  \<^item> \<open>PutLogEvents\<close> appends the batch to the named stream if the stream exists and the
    request carries the token the stream expects, and then the stream expects a new token.
\<close>

datatype request =
    DescribeLogStreamsRequest string string
  | CreateLogStreamRequest string string
  | PutLogEventsRequest PutLogEventsInput

record store =
  st_group :: string
  st_streams :: "(string \<times> InputLogEvent list list) list"
  st_requests :: "request list"

definition expectedToken :: "InputLogEvent list list \<Rightarrow> string option" where
  "expectedToken batches =
     (if batches = [] then None else Some (replicate (length batches) (CHR ''1'')))"

definition hasPrefix :: "string \<Rightarrow> string \<Rightarrow> bool" where
  "hasPrefix p n = (take (length p) n = p)"

definition storeDescribeLogStreams ::
  "string \<Rightarrow> string \<Rightarrow> store \<Rightarrow> (error + LogStream list) \<times> store" where
  "storeDescribeLogStreams g p s =
     ((if g \<noteq> st_group s then Inl (ServiceError ''ResourceNotFoundException'')
       else Inr (map (\<lambda>(n, batches).
                        \<lparr>ls_LogStreamName = n, ls_UploadSequenceToken = expectedToken batches\<rparr>)
                   (sort_key fst (filter (\<lambda>(n, batches). hasPrefix p n) (st_streams s))))),
      s\<lparr>st_requests := st_requests s @ [DescribeLogStreamsRequest g p]\<rparr>)"

definition storeCreateLogStream :: "string \<Rightarrow> string \<Rightarrow> store \<Rightarrow> error option \<times> store" where
  "storeCreateLogStream g n s =
     (let s' = s\<lparr>st_requests := st_requests s @ [CreateLogStreamRequest g n]\<rparr>
      in if g \<noteq> st_group s then (Some (ServiceError ''ResourceNotFoundException''), s')
         else if n \<in> fst ` set (st_streams s)
         then (Some (ServiceError ''ResourceAlreadyExistsException''), s')
         else (None, s'\<lparr>st_streams := st_streams s @ [(n, [])]\<rparr>))"

definition storePutLogEvents :: "PutLogEventsInput \<Rightarrow> store \<Rightarrow> error option \<times> store" where
  "storePutLogEvents inp s =
     (let s' = s\<lparr>st_requests := st_requests s @ [PutLogEventsRequest inp]\<rparr>
      in if LogGroupName inp \<noteq> st_group s
         then (Some (ServiceError ''ResourceNotFoundException''), s')
         else (case map_of (st_streams s) (LogStreamName inp) of
                 None \<Rightarrow> (Some (ServiceError ''ResourceNotFoundException''), s')
               | Some batches \<Rightarrow>
                   if SequenceToken inp \<noteq> expectedToken batches
                   then (Some (ServiceError ''InvalidSequenceTokenException''), s')
                   else (None,
                         s'\<lparr>st_streams :=
                              map (\<lambda>(n, b). if n = LogStreamName inp
                                             then (n, b @ [LogEvents inp]) else (n, b))
                                (st_streams s)\<rparr>)))"

definition storeClient :: "store CloudWatchLogs" where
  "storeClient =
     \<lparr>DescribeLogStreams = storeDescribeLogStreams,
      CreateLogStream = storeCreateLogStream,
      PutLogEvents = storePutLogEvents\<rparr>"

text \<open>
  A store seen while another writer appends to the same stream: the description still shows
  the token \<open>t\<close>, and by the time the append arrives the stream has moved on, so the append
  is refused. Its state is the record of the requests received.
\<close>

definition racingClient :: "string \<Rightarrow> string \<Rightarrow> (request list) CloudWatchLogs" where
  "racingClient name t =
     \<lparr>DescribeLogStreams =
        (\<lambda>g p s. (Inr [\<lparr>ls_LogStreamName = name, ls_UploadSequenceToken = Some t\<rparr>],
                  s @ [DescribeLogStreamsRequest g p])),
      CreateLogStream =
        (\<lambda>g n s. (Some (ServiceError ''ResourceAlreadyExistsException''),
                  s @ [CreateLogStreamRequest g n])),
      PutLogEvents =
        (\<lambda>inp s. (Some (ServiceError ''InvalidSequenceTokenException''),
                  s @ [PutLogEventsRequest inp]))\<rparr>"

section \<open>An example autoscaler\<close>

text \<open>
  The autoscaler of the specification's scenario: named \<open>web\<close> in namespace \<open>prod\<close>, between
  2 and 10 replicas, 3 running, never scaled, with no metrics and no conditions.
\<close>

definition web :: HorizontalPodAutoscaler where
  "web =
     \<lparr>ObjectMeta = \<lparr>meta_Name = ''web'', meta_Namespace = ''prod''\<rparr>,
      Spec = \<lparr>ScaleTargetRef =
                 \<lparr>ref_Kind = ''Deployment'', ref_Name = ''web'', ref_APIVersion = ''apps/v1''\<rparr>,
               MinReplicas = Some 2, MaxReplicas = 10, Metrics = []\<rparr>,
      Status = \<lparr>LastScaleTime = None, CurrentReplicas = 3, DesiredReplicas = 3,
                 CurrentMetrics = [], Conditions = []\<rparr>\<rparr>"

section \<open>Facts about label sets and the registry\<close>

lemma dom_makeBaseLabel: "dom (makeBaseLabel a) = set baseLabels"
  by (auto simp: makeBaseLabel_def baseLabels_def)

lemma dom_MergeLabels: "dom (MergeLabels m1 m2) = dom m1 \<union> dom m2"
  by (auto simp: MergeLabels_def)

lemma dom_forward: "dom (fst (MakeAnnotationCondLabels cond)) = set annoLabels"
  by (auto simp: MakeAnnotationCondLabels_def annoLabels_def Let_def)

lemma dom_reverse: "dom (snd (MakeAnnotationCondLabels cond)) = set annoLabels"
  by (auto simp: MakeAnnotationCondLabels_def annoLabels_def Let_def)

lemma WithSet_ok:
  "dom labels = set (variableLabels g) \<Longrightarrow>
   WithSet g labels v reg = Inr (reg(g := (reg g)(labelValues g labels \<mapsto> v)))"
  by (simp add: WithSet_def)

lemma map_base:
  "map (\<lambda>n. the (makeBaseLabel a n)) baseLabels =
     [meta_Name (ObjectMeta a), meta_Namespace (ObjectMeta a),
      ref_Kind (ScaleTargetRef (Spec a)), ref_Name (ScaleTargetRef (Spec a)),
      ref_APIVersion (ScaleTargetRef (Spec a))]"
  by (simp add: makeBaseLabel_def baseLabels_def)

lemma map_base_merge:
  "dom l \<inter> set baseLabels = {} \<Longrightarrow>
   map (\<lambda>n. the (MergeLabels (makeBaseLabel a) l n)) baseLabels =
     map (\<lambda>n. the (makeBaseLabel a n)) baseLabels"
  by (auto simp: MergeLabels_def makeBaseLabel_def baseLabels_def map_add_def
      split: option.splits)

lemma anno_base_disjoint: "set annoLabels \<inter> set baseLabels = {}"
  by (simp add: annoLabels_def baseLabels_def)

lemma values_forward:
  "map (\<lambda>n. the (MergeLabels b (fst (MakeAnnotationCondLabels cond)) n)) annoLabels =
     [cond_Status cond, cond_Reason cond, cond_Message cond]"
  by (simp add: MergeLabels_def MakeAnnotationCondLabels_def annoLabels_def Let_def)

lemma values_reverse:
  "map (\<lambda>n. the (MergeLabels b (snd (MakeAnnotationCondLabels cond)) n)) annoLabels =
     [if cond_Status cond = ConditionTrue then ConditionFalse else ConditionTrue, [], []]"
  by (simp add: MergeLabels_def MakeAnnotationCondLabels_def annoLabels_def Let_def)

lemma labelValues_base:
  "variableLabels g = baseLabels \<Longrightarrow>
   labelValues g (makeBaseLabel a) =
     [meta_Name (ObjectMeta a), meta_Namespace (ObjectMeta a),
      ref_Kind (ScaleTargetRef (Spec a)), ref_Name (ScaleTargetRef (Spec a)),
      ref_APIVersion (ScaleTargetRef (Spec a))]"
  by (simp add: labelValues_def map_base)

lemma labelValues_forward:
  "variableLabels g = baseLabels @ annoLabels \<Longrightarrow>
   labelValues g (MergeLabels (makeBaseLabel a) (fst (MakeAnnotationCondLabels cond))) =
     labelValues HpaCurrentPodsNum (makeBaseLabel a)
       @ [cond_Status cond, cond_Reason cond, cond_Message cond]"
  using anno_base_disjoint
  by (simp add: labelValues_def map_base_merge dom_forward values_forward)

lemma labelValues_reverse:
  "variableLabels g = baseLabels @ annoLabels \<Longrightarrow>
   labelValues g (MergeLabels (makeBaseLabel a) (snd (MakeAnnotationCondLabels cond))) =
     labelValues HpaCurrentPodsNum (makeBaseLabel a)
       @ [if cond_Status cond = ConditionTrue then ConditionFalse else ConditionTrue, [], []]"
  using anno_base_disjoint
  by (simp add: labelValues_def map_base_merge dom_reverse values_reverse)

lemma setForwardReverse_ok:
  assumes g: "variableLabels g = baseLabels @ annoLabels"
  shows "setForwardReverse g (makeBaseLabel a) (fst (MakeAnnotationCondLabels cond))
            (snd (MakeAnnotationCondLabels cond)) reg =
         Inr (reg(g := (reg g)
           (labelValues g (MergeLabels (makeBaseLabel a) (fst (MakeAnnotationCondLabels cond)))
              \<mapsto> 1,
            labelValues g (MergeLabels (makeBaseLabel a) (snd (MakeAnnotationCondLabels cond)))
              \<mapsto> 0)))"
proof -
  have df: "dom (MergeLabels (makeBaseLabel a) (fst (MakeAnnotationCondLabels cond))) =
              set (variableLabels g)"
    by (simp add: g dom_MergeLabels dom_makeBaseLabel dom_forward)
  have dr: "dom (MergeLabels (makeBaseLabel a) (snd (MakeAnnotationCondLabels cond))) =
              set (variableLabels g)"
    by (simp add: g dom_MergeLabels dom_makeBaseLabel dom_reverse)
  show ?thesis
    by (simp add: setForwardReverse_def bindE_def WithSet_ok [OF df] WithSet_ok [OF dr])
qed

lemma projectCondition_cases:
  "projectCondition b cond reg =
     (if cond_Type cond = ''AbleToScale'' then
        setForwardReverse HpaAbleToScale b (fst (MakeAnnotationCondLabels cond))
          (snd (MakeAnnotationCondLabels cond)) reg
      else if cond_Type cond = ''ScalingActive'' then
        setForwardReverse HpaScalingActive b (fst (MakeAnnotationCondLabels cond))
          (snd (MakeAnnotationCondLabels cond)) reg
      else if cond_Type cond = ''ScalingLimited'' then
        setForwardReverse HpaScalingLimited b (fst (MakeAnnotationCondLabels cond))
          (snd (MakeAnnotationCondLabels cond)) reg
      else Inr reg)"
  by (simp add: projectCondition_def AbleToScale_def ScalingActive_def ScalingLimited_def
      split: prod.splits)

lemma ResetAllMetric_empty: "ResetAllMetric reg = (\<lambda>g. Map.empty)"
proof
  fix g show "ResetAllMetric reg g = Map.empty"
    by (cases g) (simp_all add: ResetAllMetric_def collectors_def)
qed

lemma projectReplicas_ok:
  "projectReplicas (makeBaseLabel a) a reg =
     Inr (reg
       (HpaCurrentPodsNum := (reg HpaCurrentPodsNum)
          (labelValues HpaCurrentPodsNum (makeBaseLabel a)
             \<mapsto> real_of_int (CurrentReplicas (Status a))),
        HpaDesiredPodsNum := (reg HpaDesiredPodsNum)
          (labelValues HpaCurrentPodsNum (makeBaseLabel a)
             \<mapsto> real_of_int (DesiredReplicas (Status a))),
        HpaMinPodsNum :=
          (case MinReplicas (Spec a) of
             None \<Rightarrow> reg HpaMinPodsNum
           | Some n \<Rightarrow> (reg HpaMinPodsNum)
               (labelValues HpaCurrentPodsNum (makeBaseLabel a) \<mapsto> real_of_int n)),
        HpaMaxPodsNum := (reg HpaMaxPodsNum)
          (labelValues HpaCurrentPodsNum (makeBaseLabel a)
             \<mapsto> real_of_int (MaxReplicas (Spec a))),
        HpaLastScaleSecond :=
          (case LastScaleTime (Status a) of
             None \<Rightarrow> reg HpaLastScaleSecond
           | Some t \<Rightarrow> (reg HpaLastScaleSecond)
               (labelValues HpaCurrentPodsNum (makeBaseLabel a) \<mapsto> real_of_int t))))"
  by (auto simp: projectReplicas_def bindE_def WithSet_def dom_makeBaseLabel labelValues_def
      split: option.splits)

text \<open>Each loop of the projection writes to its own gauge vectors only.\<close>

lemma setMetric_other:
  "setMetric g b m reg = Inr reg' \<Longrightarrow> h \<noteq> g \<Longrightarrow> reg' h = reg h"
  by (auto simp: setMetric_def WithSet_def split: prod.splits if_splits)

lemma projectSpecMetric_other:
  "projectSpecMetric b metric reg = Inr reg' \<Longrightarrow> h \<noteq> HpaTargetMetricsValue \<Longrightarrow> reg' h = reg h"
  by (auto simp: projectSpecMetric_def bindE_def dest: setMetric_other
      split: if_splits option.splits sum.splits)

lemma projectStatusMetric_other:
  "projectStatusMetric b metric reg = Inr reg' \<Longrightarrow> h \<noteq> HpaCurrentMetricsValue \<Longrightarrow> reg' h = reg h"
  by (auto simp: projectStatusMetric_def bindE_def dest: setMetric_other
      split: if_splits option.splits sum.splits)

lemma setForwardReverse_other:
  "setForwardReverse g b l l' reg = Inr reg' \<Longrightarrow> h \<noteq> g \<Longrightarrow> reg' h = reg h"
  by (auto simp: setForwardReverse_def bindE_def WithSet_def split: if_splits sum.splits)

lemma projectCondition_other:
  "projectCondition b cond reg = Inr reg' \<Longrightarrow>
   h \<notin> {HpaAbleToScale, HpaScalingActive, HpaScalingLimited} \<Longrightarrow> reg' h = reg h"
  by (auto simp: projectCondition_def dest: setForwardReverse_other
      split: if_splits prod.splits)

lemma forRange_other:
  assumes step: "\<And>x s s'. body x s = Inr s' \<Longrightarrow> s' h = s h"
  shows "forRange body xs (reg :: registry) = Inr reg' \<Longrightarrow> reg' h = reg h"
proof (induction xs arbitrary: reg)
  case Nil
  then show ?case by simp
next
  case (Cons x xs)
  then show ?case
    by (auto split: sum.splits dest: step)
qed

lemma projectHpa_replica_gauges:
  assumes run: "projectHpa a reg = Inr reg'"
    and h: "h \<in> {HpaCurrentPodsNum, HpaDesiredPodsNum, HpaMinPodsNum, HpaMaxPodsNum,
                  HpaLastScaleSecond}"
    and rep: "projectReplicas (makeBaseLabel a) a reg = Inr r1"
  shows "reg' h = r1 h"
proof -
  from run rep obtain r2 r3 where
    s2: "forRange (projectSpecMetric (makeBaseLabel a)) (Metrics (Spec a)) r1 = Inr r2" and
    s3: "forRange (projectStatusMetric (makeBaseLabel a)) (CurrentMetrics (Status a)) r2 = Inr r3" and
    s4: "forRange (projectCondition (makeBaseLabel a)) (Conditions (Status a)) r3 = Inr reg'"
    by (auto simp: projectHpa_def bindE_def Let_def split: sum.splits)
  have "r2 h = r1 h"
    using h by (intro forRange_other [OF _ s2] projectSpecMetric_other) auto
  moreover have "r3 h = r2 h"
    using h by (intro forRange_other [OF _ s3] projectStatusMetric_other) auto
  moreover have "reg' h = r3 h"
    using h by (intro forRange_other [OF _ s4] projectCondition_other) auto
  ultimately show ?thesis by simp
qed

section \<open>Facts about the reference store\<close>

lemma hasPrefix_refl: "hasPrefix p p"
  by (simp add: hasPrefix_def)

lemma filter_no_prefix:
  "\<forall>n \<in> fst ` set xs. \<not> hasPrefix p n \<Longrightarrow> filter (\<lambda>(n, b). hasPrefix p n) xs = []"
  by (induction xs) auto

lemma map_of_absent:
  "\<forall>n \<in> fst ` set xs. \<not> hasPrefix p n \<Longrightarrow> map_of xs p = None"
  using hasPrefix_refl by (induction xs) auto

lemma map_append_absent:
  "\<forall>n \<in> fst ` set xs. \<not> hasPrefix p n \<Longrightarrow>
   map (\<lambda>(n, b). if n = p then (n, b @ [e]) else (n, b)) xs = xs"
  using hasPrefix_refl by (induction xs) auto

text \<open>
  Shipping one autoscaler to a store of the right group in which no stream's name starts
  with the configured stream name: the stream is created and receives one batch of one
  record, sent without a token.
\<close>

lemma ship_to_fresh_store:
  assumes g: "st_group s = cwLogGroup fl"
    and fresh: "\<forall>n \<in> fst ` set (st_streams s). \<not> hasPrefix (cwLogStream fl) n"
  shows "PutHPAConditionToCWLog fl storeClient marshal now [a] s =
     (None,
      s\<lparr>st_streams := st_streams s @
           [(cwLogStream fl,
             [[\<lparr>ile_Message = HpaConditionJsonString marshal a,
                ile_Timestamp = now * 1000\<rparr>]])],
        st_requests := st_requests s @
           [DescribeLogStreamsRequest (cwLogGroup fl) (cwLogStream fl),
            CreateLogStreamRequest (cwLogGroup fl) (cwLogStream fl),
            PutLogEventsRequest
              \<lparr>LogEvents = [\<lparr>ile_Message = HpaConditionJsonString marshal a,
                             ile_Timestamp = now * 1000\<rparr>],
               LogGroupName = cwLogGroup fl, LogStreamName = cwLogStream fl,
               SequenceToken = None\<rparr>]\<rparr>)"
proof -
  have notin: "cwLogStream fl \<notin> fst ` set (st_streams s)"
    using fresh hasPrefix_refl by blast
  have tk: "token fl storeClient s =
      ((None, None),
       s\<lparr>st_streams := st_streams s @ [(cwLogStream fl, [])],
         st_requests := st_requests s @
           [DescribeLogStreamsRequest (cwLogGroup fl) (cwLogStream fl),
            CreateLogStreamRequest (cwLogGroup fl) (cwLogStream fl)]\<rparr>)"
    using g notin
    by (simp add: token_def createStream_def storeClient_def storeDescribeLogStreams_def
        storeCreateLogStream_def filter_no_prefix [OF fresh] Let_def)
  show ?thesis
    unfolding PutHPAConditionToCWLog_def tk using g
    by (simp add: storeClient_def storePutLogEvents_def
        Let_def map_add_def map_of_absent [OF fresh] map_append_absent [OF fresh]
        expectedToken_def)
qed

text \<open>
  Shipping again once the stream exists with at least one batch: no creation request, and
  the append carries the token the stream expects.
\<close>

lemma ship_again:
  assumes g: "st_group s = cwLogGroup fl"
    and fresh: "\<forall>n \<in> fst ` set xs. \<not> hasPrefix (cwLogStream fl) n"
    and st: "st_streams s = xs @ [(cwLogStream fl, b # bs)]"
  shows "PutHPAConditionToCWLog fl storeClient marshal now [a] s =
     (None,
      s\<lparr>st_streams := xs @
           [(cwLogStream fl,
             (b # bs) @ [[\<lparr>ile_Message = HpaConditionJsonString marshal a,
                ile_Timestamp = now * 1000\<rparr>]])],
        st_requests := st_requests s @
           [DescribeLogStreamsRequest (cwLogGroup fl) (cwLogStream fl),
            PutLogEventsRequest
              \<lparr>LogEvents = [\<lparr>ile_Message = HpaConditionJsonString marshal a,
                             ile_Timestamp = now * 1000\<rparr>],
               LogGroupName = cwLogGroup fl, LogStreamName = cwLogStream fl,
               SequenceToken = expectedToken (b # bs)\<rparr>]\<rparr>)"
proof -
  have tk: "token fl storeClient s =
      ((expectedToken (b # bs), None),
       s\<lparr>st_requests := st_requests s @
           [DescribeLogStreamsRequest (cwLogGroup fl) (cwLogStream fl)]\<rparr>)"
    using g
    by (simp add: token_def storeClient_def storeDescribeLogStreams_def st
        filter_no_prefix [OF fresh] hasPrefix_refl)
  show ?thesis
    unfolding PutHPAConditionToCWLog_def tk using g
    by (simp add: storeClient_def storePutLogEvents_def
        Let_def st map_add_def map_of_absent [OF fresh] map_append_absent [OF fresh])
qed

section \<open>The claims\<close>

subsection \<open>Extractors\<close>

text \<open>
  C6. For every Resource entry with a utilization \<open>u\<close>, the target extractor returns the
  value \<open>u\<close> with metric name \<open>-\<close>, whatever the average value is; with no utilization and
  an average value of \<open>q\<close> milli-units it returns \<open>q / 1000\<close>. The same holds for the
  status extractor. At utilization 80 the value is 80, at 1500 milli-units it is 1.5 (the
  witness below).
\<close>

theorem resource_value_by_utilization:
  "(rms_TargetAverageUtilization ms = Some u \<longrightarrow>
      ParseResourceSpec ms =
        Inr \<lparr>Kind = ''Resource'', Name = rms_Name ms, MetricName = ''-'', Value = real_of_int u\<rparr>)
   \<and> (rms_TargetAverageUtilization ms = None \<and> rms_TargetAverageValue ms = Some q \<longrightarrow>
      ParseResourceSpec ms =
        Inr \<lparr>Kind = ''Resource'', Name = rms_Name ms, MetricName = ''-'',
             Value = real_of_int q / 1000\<rparr>)
   \<and> (rst_CurrentAverageUtilization mt = Some u \<longrightarrow>
      ParseResourceStatus mt =
        \<lparr>Kind = ''Resource'', Name = rst_Name mt, MetricName = ''-'', Value = real_of_int u\<rparr>)
   \<and> (rst_CurrentAverageUtilization mt = None \<and> rst_CurrentAverageValue mt = q \<longrightarrow>
      ParseResourceStatus mt =
        \<lparr>Kind = ''Resource'', Name = rst_Name mt, MetricName = ''-'',
         Value = real_of_int q / 1000\<rparr>)"
  by (simp add: ParseResourceSpec_def ParseResourceStatus_def MilliValue_def)

theorem resource_value_by_utilization_witness:
  "ParseResourceSpec
     \<lparr>rms_Name = ''cpu'', rms_TargetAverageUtilization = Some 80,
      rms_TargetAverageValue = None\<rparr> =
     Inr \<lparr>Kind = ''Resource'', Name = ''cpu'', MetricName = ''-'', Value = 80\<rparr>
   \<and> ParseResourceSpec
     \<lparr>rms_Name = ''cpu'', rms_TargetAverageUtilization = None,
      rms_TargetAverageValue = Some 1500\<rparr> =
     Inr \<lparr>Kind = ''Resource'', Name = ''cpu'', MetricName = ''-'', Value = 1.5\<rparr>
   \<and> ParseResourceStatus
     \<lparr>rst_Name = ''cpu'', rst_CurrentAverageUtilization = Some 80,
      rst_CurrentAverageValue = 1500\<rparr> =
     \<lparr>Kind = ''Resource'', Name = ''cpu'', MetricName = ''-'', Value = 80\<rparr>
   \<and> ParseResourceStatus
     \<lparr>rst_Name = ''cpu'', rst_CurrentAverageUtilization = None,
      rst_CurrentAverageValue = 1500\<rparr> =
     \<lparr>Kind = ''Resource'', Name = ''cpu'', MetricName = ''-'', Value = 1.5\<rparr>"
  using
    resource_value_by_utilization
      [of "\<lparr>rms_Name = ''cpu'', rms_TargetAverageUtilization = Some 80,
            rms_TargetAverageValue = None\<rparr>" 80 1500
          "\<lparr>rst_Name = ''cpu'', rst_CurrentAverageUtilization = Some 80,
            rst_CurrentAverageValue = 1500\<rparr>"]
    resource_value_by_utilization
      [of "\<lparr>rms_Name = ''cpu'', rms_TargetAverageUtilization = None,
            rms_TargetAverageValue = Some 1500\<rparr>" 80 1500
          "\<lparr>rst_Name = ''cpu'', rst_CurrentAverageUtilization = None,
            rst_CurrentAverageValue = 1500\<rparr>"]
  by simp

text \<open>
  C7. For every External entry with no average value and a target value of 2000 milli-units
  the extractor returns kind \<open>External\<close>, name \<open>-\<close> and value 2; in general the value is
  the average value scaled by 1000 when there is one, and the target value scaled by 1000
  otherwise. The status extractor does the same with the current value.
\<close>

theorem external_value_selection:
  "(ems_TargetAverageValue ms = None \<and> ems_TargetValue ms = Some 2000 \<longrightarrow>
      ParseExternalSpec ms =
        Inr \<lparr>Kind = ''External'', Name = ''-'', MetricName = ems_MetricName ms, Value = 2\<rparr>)
   \<and> (ems_TargetAverageValue ms = None \<and> ems_TargetValue ms = Some q \<longrightarrow>
      ParseExternalSpec ms =
        Inr \<lparr>Kind = ''External'', Name = ''-'', MetricName = ems_MetricName ms,
             Value = real_of_int q / 1000\<rparr>)
   \<and> (ems_TargetAverageValue ms = Some av \<longrightarrow>
      ParseExternalSpec ms =
        Inr \<lparr>Kind = ''External'', Name = ''-'', MetricName = ems_MetricName ms,
             Value = real_of_int av / 1000\<rparr>)
   \<and> (est_CurrentAverageValue mt = None \<and> est_CurrentValue mt = 2000 \<longrightarrow>
      ParseExternalStatus mt =
        \<lparr>Kind = ''External'', Name = ''-'', MetricName = est_MetricName mt, Value = 2\<rparr>)
   \<and> (est_CurrentAverageValue mt = None \<and> est_CurrentValue mt = q \<longrightarrow>
      ParseExternalStatus mt =
        \<lparr>Kind = ''External'', Name = ''-'', MetricName = est_MetricName mt,
         Value = real_of_int q / 1000\<rparr>)
   \<and> (est_CurrentAverageValue mt = Some av \<longrightarrow>
      ParseExternalStatus mt =
        \<lparr>Kind = ''External'', Name = ''-'', MetricName = est_MetricName mt,
         Value = real_of_int av / 1000\<rparr>)"
  by (simp add: ParseExternalSpec_def ParseExternalStatus_def MilliValue_def)

theorem external_value_selection_witness:
  "ParseExternalSpec
     \<lparr>ems_MetricName = ''queue_depth'', ems_TargetValue = Some 2000,
      ems_TargetAverageValue = None\<rparr> =
     Inr \<lparr>Kind = ''External'', Name = ''-'', MetricName = ''queue_depth'', Value = 2\<rparr>
   \<and> ParseExternalSpec
     \<lparr>ems_MetricName = ''queue_depth'', ems_TargetValue = Some 2000,
      ems_TargetAverageValue = Some 500\<rparr> =
     Inr \<lparr>Kind = ''External'', Name = ''-'', MetricName = ''queue_depth'', Value = 0.5\<rparr>
   \<and> ParseExternalStatus
     \<lparr>est_MetricName = ''queue_depth'', est_CurrentValue = 2000,
      est_CurrentAverageValue = None\<rparr> =
     \<lparr>Kind = ''External'', Name = ''-'', MetricName = ''queue_depth'', Value = 2\<rparr>
   \<and> ParseExternalStatus
     \<lparr>est_MetricName = ''queue_depth'', est_CurrentValue = 2000,
      est_CurrentAverageValue = Some 500\<rparr> =
     \<lparr>Kind = ''External'', Name = ''-'', MetricName = ''queue_depth'', Value = 0.5\<rparr>"
  using
    external_value_selection
      [of "\<lparr>ems_MetricName = ''queue_depth'', ems_TargetValue = Some 2000,
            ems_TargetAverageValue = None\<rparr>" 2000 500
          "\<lparr>est_MetricName = ''queue_depth'', est_CurrentValue = 2000,
            est_CurrentAverageValue = None\<rparr>"]
    external_value_selection
      [of "\<lparr>ems_MetricName = ''queue_depth'', ems_TargetValue = Some 2000,
            ems_TargetAverageValue = Some 500\<rparr>" 2000 500
          "\<lparr>est_MetricName = ''queue_depth'', est_CurrentValue = 2000,
            est_CurrentAverageValue = Some 500\<rparr>"]
  by simp

subsection \<open>Conditions\<close>

text \<open>
  C10. The forward label set carries the condition's own status. The reverse label set
  carries \<open>False\<close> exactly when the condition's status is \<open>True\<close>, and \<open>True\<close> in every
  other case; in particular for a status that is neither \<open>True\<close> nor \<open>False\<close>, such as
  \<open>Unknown\<close>.
\<close>

theorem reverse_status_rule:
  "fst (MakeAnnotationCondLabels cond) ''cond_status'' = Some (cond_Status cond)
   \<and> snd (MakeAnnotationCondLabels cond) ''cond_status'' =
       Some (if cond_Status cond = ''True'' then ''False'' else ''True'')
   \<and> (cond_Status cond \<noteq> ''True'' \<and> cond_Status cond \<noteq> ''False'' \<longrightarrow>
       snd (MakeAnnotationCondLabels cond) ''cond_status'' = Some ''True'')
   \<and> (snd (MakeAnnotationCondLabels cond) ''cond_status'' = Some ''False''
        \<longleftrightarrow> cond_Status cond = ''True'')"
  by (simp add: MakeAnnotationCondLabels_def ConditionTrue_def ConditionFalse_def)

theorem reverse_status_rule_witness:
  "snd (MakeAnnotationCondLabels
      \<lparr>cond_Type = ''ScalingActive'', cond_Status = ''Unknown'',
       cond_Reason = ''FailedGetResourceMetric'', cond_Message = ''no metrics''\<rparr>)
     ''cond_status'' = Some ''True''"
  using reverse_status_rule
      [of "\<lparr>cond_Type = ''ScalingActive'', cond_Status = ''Unknown'',
       cond_Reason = ''FailedGetResourceMetric'', cond_Message = ''no metrics''\<rparr>"]
  by simp

text \<open>
  C1. For every condition, the forward and the reverse label set have the same three keys;
  the forward set carries the condition's status, reason and message; the reverse set is
  the forward set with the opposite status and with reason and message cleared, so the two
  always differ in \<open>cond_status\<close>. For a condition of one of the three known types, the
  projection writes to the gauge vector of that type only: 1 under the forward labels and 0
  under the reverse labels, which are two different series. A condition of any other type
  changes nothing.
\<close>

theorem condition_forward_reverse:
  fixes cond :: HorizontalPodAutoscalerCondition and a :: HorizontalPodAutoscaler
    and reg :: registry
  defines "fw \<equiv> fst (MakeAnnotationCondLabels cond)"
    and "rv \<equiv> snd (MakeAnnotationCondLabels cond)"
    and "b \<equiv> makeBaseLabel a"
  shows
  "dom fw = {''cond_status'', ''cond_reason'', ''cond_message''}
   \<and> dom rv = {''cond_status'', ''cond_reason'', ''cond_message''}
   \<and> fw = [''cond_status'' \<mapsto> cond_Status cond, ''cond_reason'' \<mapsto> cond_Reason cond,
            ''cond_message'' \<mapsto> cond_Message cond]
   \<and> rv = fw(''cond_status'' \<mapsto> (if cond_Status cond = ''True'' then ''False'' else ''True''),
              ''cond_reason'' \<mapsto> [], ''cond_message'' \<mapsto> [])
   \<and> fw ''cond_status'' \<noteq> rv ''cond_status''
   \<and> (\<forall>g. (cond_Type cond = ''AbleToScale'' \<and> g = HpaAbleToScale)
           \<or> (cond_Type cond = ''ScalingActive'' \<and> g = HpaScalingActive)
           \<or> (cond_Type cond = ''ScalingLimited'' \<and> g = HpaScalingLimited) \<longrightarrow>
        labelValues g (MergeLabels b fw) \<noteq> labelValues g (MergeLabels b rv)
        \<and> projectCondition b cond reg =
            Inr (reg(g := (reg g)(labelValues g (MergeLabels b fw) \<mapsto> 1,
                                 labelValues g (MergeLabels b rv) \<mapsto> 0))))
   \<and> (cond_Type cond \<noteq> ''AbleToScale'' \<and> cond_Type cond \<noteq> ''ScalingActive''
       \<and> cond_Type cond \<noteq> ''ScalingLimited'' \<longrightarrow> projectCondition b cond reg = Inr reg)"
proof (intro conjI allI impI)
  show "dom fw = {''cond_status'', ''cond_reason'', ''cond_message''}"
    unfolding fw_def by (auto simp: MakeAnnotationCondLabels_def Let_def)
  show "dom rv = {''cond_status'', ''cond_reason'', ''cond_message''}"
    unfolding rv_def by (auto simp: MakeAnnotationCondLabels_def Let_def)
  show "fw = [''cond_status'' \<mapsto> cond_Status cond, ''cond_reason'' \<mapsto> cond_Reason cond,
            ''cond_message'' \<mapsto> cond_Message cond]"
    unfolding fw_def by (simp add: MakeAnnotationCondLabels_def Let_def)
  show "rv = fw(''cond_status'' \<mapsto> (if cond_Status cond = ''True'' then ''False'' else ''True''),
              ''cond_reason'' \<mapsto> [], ''cond_message'' \<mapsto> [])"
    unfolding fw_def rv_def
    by (simp add: MakeAnnotationCondLabels_def Let_def ConditionTrue_def ConditionFalse_def)
  show "fw ''cond_status'' \<noteq> rv ''cond_status''"
    unfolding fw_def rv_def
    by (simp add: MakeAnnotationCondLabels_def Let_def ConditionTrue_def ConditionFalse_def)
next
  fix g
  assume t: "(cond_Type cond = ''AbleToScale'' \<and> g = HpaAbleToScale)
           \<or> (cond_Type cond = ''ScalingActive'' \<and> g = HpaScalingActive)
           \<or> (cond_Type cond = ''ScalingLimited'' \<and> g = HpaScalingLimited)"
  then have g: "variableLabels g = baseLabels @ annoLabels" by auto
  show "labelValues g (MergeLabels b fw) \<noteq> labelValues g (MergeLabels b rv)"
    unfolding fw_def rv_def b_def
    by (simp add: labelValues_forward [OF g] labelValues_reverse [OF g]
        ConditionTrue_def ConditionFalse_def)
  from t show "projectCondition b cond reg =
            Inr (reg(g := (reg g)(labelValues g (MergeLabels b fw) \<mapsto> 1,
                                 labelValues g (MergeLabels b rv) \<mapsto> 0)))"
    unfolding fw_def rv_def b_def
    by (auto simp: projectCondition_cases setForwardReverse_ok)
next
  assume "cond_Type cond \<noteq> ''AbleToScale'' \<and> cond_Type cond \<noteq> ''ScalingActive''
       \<and> cond_Type cond \<noteq> ''ScalingLimited''"
  then show "projectCondition b cond reg = Inr reg"
    by (simp add: projectCondition_cases)
qed

theorem condition_forward_reverse_witness:
  "projectCondition (makeBaseLabel web)
     \<lparr>cond_Type = ''AbleToScale'', cond_Status = ''True'',
      cond_Reason = ''ReadyForNewScale'', cond_Message = ''ok''\<rparr>
     (\<lambda>g. Map.empty) =
   Inr ((\<lambda>g. Map.empty)
     (HpaAbleToScale :=
        [[''web'', ''prod'', ''Deployment'', ''web'', ''apps/v1'',
          ''True'', ''ReadyForNewScale'', ''ok''] \<mapsto> 1,
         [''web'', ''prod'', ''Deployment'', ''web'', ''apps/v1'',
          ''False'', [], []] \<mapsto> 0]))
   \<and> projectCondition (makeBaseLabel web)
     \<lparr>cond_Type = ''Ready'', cond_Status = ''True'',
      cond_Reason = ''ReadyForNewScale'', cond_Message = ''ok''\<rparr>
     (\<lambda>g. Map.empty) = Inr (\<lambda>g. Map.empty)"
proof -
  let ?c = "\<lparr>cond_Type = ''AbleToScale'', cond_Status = ''True'',
      cond_Reason = ''ReadyForNewScale'', cond_Message = ''ok''\<rparr>"
  let ?d = "\<lparr>cond_Type = ''Ready'', cond_Status = ''True'',
      cond_Reason = ''ReadyForNewScale'', cond_Message = ''ok''\<rparr>"
  have g: "variableLabels HpaAbleToScale = baseLabels @ annoLabels"
    by simp
  have t: "cond_Type ?c = ''AbleToScale'' \<and> HpaAbleToScale = HpaAbleToScale"
    by simp
  have "projectCondition (makeBaseLabel web) ?c (\<lambda>g. Map.empty) =
      Inr ((\<lambda>g. Map.empty)(HpaAbleToScale := Map.empty
        (labelValues HpaAbleToScale
           (MergeLabels (makeBaseLabel web) (fst (MakeAnnotationCondLabels ?c))) \<mapsto> 1,
         labelValues HpaAbleToScale
           (MergeLabels (makeBaseLabel web) (snd (MakeAnnotationCondLabels ?c))) \<mapsto> 0)))"
    using condition_forward_reverse [of ?c web "\<lambda>g. Map.empty"] t by blast
  moreover have "projectCondition (makeBaseLabel web) ?d (\<lambda>g. Map.empty) = Inr (\<lambda>g. Map.empty)"
    using condition_forward_reverse [of ?d web "\<lambda>g. Map.empty"] by simp
  ultimately show ?thesis
    by (simp add: labelValues_forward [OF g] labelValues_reverse [OF g]
        labelValues_base ConditionTrue_def ConditionFalse_def web_def)
qed

subsection \<open>Replica gauges\<close>

text \<open>
  C8. For every autoscaler, the base label set has the five keys, and the projection sets
  the current, desired and maximum replica gauges under it; it sets the minimum gauge
  exactly when the minimum is present and the last-scale gauge exactly when the last-scale
  time is present, and leaves them untouched otherwise. The later loops of the projection do
  not change these five vectors. After a reset, the autoscaler of the scenario fills the
  current, desired, minimum and maximum vectors with one series each and nothing else.
\<close>

theorem replica_gauges:
  fixes a :: HorizontalPodAutoscaler and reg reg' reg0 :: registry
  defines "k \<equiv> labelValues HpaCurrentPodsNum (makeBaseLabel a)"
  defines "after \<equiv> reg
       (HpaCurrentPodsNum :=
          (reg HpaCurrentPodsNum)(k \<mapsto> real_of_int (CurrentReplicas (Status a))),
        HpaDesiredPodsNum :=
          (reg HpaDesiredPodsNum)(k \<mapsto> real_of_int (DesiredReplicas (Status a))),
        HpaMinPodsNum :=
          (case MinReplicas (Spec a) of
             None \<Rightarrow> reg HpaMinPodsNum
           | Some n \<Rightarrow> (reg HpaMinPodsNum)(k \<mapsto> real_of_int n)),
        HpaMaxPodsNum :=
          (reg HpaMaxPodsNum)(k \<mapsto> real_of_int (MaxReplicas (Spec a))),
        HpaLastScaleSecond :=
          (case LastScaleTime (Status a) of
             None \<Rightarrow> reg HpaLastScaleSecond
           | Some t \<Rightarrow> (reg HpaLastScaleSecond)(k \<mapsto> real_of_int t)))"
  shows
  "dom (makeBaseLabel a) =
     {''hpa_name'', ''hpa_namespace'', ''ref_kind'', ''ref_name'', ''ref_apiversion''}
   \<and> k = [meta_Name (ObjectMeta a), meta_Namespace (ObjectMeta a),
          ref_Kind (ScaleTargetRef (Spec a)), ref_Name (ScaleTargetRef (Spec a)),
          ref_APIVersion (ScaleTargetRef (Spec a))]
   \<and> projectReplicas (makeBaseLabel a) a reg = Inr after
   \<and> (projectHpa a reg = Inr reg' \<longrightarrow>
        reg' HpaCurrentPodsNum = after HpaCurrentPodsNum
        \<and> reg' HpaDesiredPodsNum = after HpaDesiredPodsNum
        \<and> reg' HpaMinPodsNum = after HpaMinPodsNum
        \<and> reg' HpaMaxPodsNum = after HpaMaxPodsNum
        \<and> reg' HpaLastScaleSecond = after HpaLastScaleSecond)
   \<and> (reg = ResetAllMetric reg0 \<longrightarrow>
        after HpaCurrentPodsNum \<noteq> Map.empty
        \<and> after HpaDesiredPodsNum \<noteq> Map.empty
        \<and> after HpaMaxPodsNum \<noteq> Map.empty
        \<and> (after HpaMinPodsNum \<noteq> Map.empty \<longleftrightarrow> MinReplicas (Spec a) \<noteq> None)
        \<and> (after HpaLastScaleSecond \<noteq> Map.empty \<longleftrightarrow> LastScaleTime (Status a) \<noteq> None))
   \<and> (meta_Name (ObjectMeta a) = ''web'' \<and> meta_Namespace (ObjectMeta a) = ''prod''
       \<and> MinReplicas (Spec a) = Some 2 \<and> MaxReplicas (Spec a) = 10
       \<and> CurrentReplicas (Status a) = 3 \<and> LastScaleTime (Status a) = None
       \<and> Metrics (Spec a) = [] \<and> CurrentMetrics (Status a) = []
       \<and> Conditions (Status a) = [] \<longrightarrow>
        forRange projectHpa [a] (ResetAllMetric reg0) =
          Inr ((\<lambda>g. Map.empty)
            (HpaCurrentPodsNum := [k \<mapsto> 3],
             HpaDesiredPodsNum := [k \<mapsto> real_of_int (DesiredReplicas (Status a))],
             HpaMinPodsNum := [k \<mapsto> 2],
             HpaMaxPodsNum := [k \<mapsto> 10])))"
proof (intro conjI impI)
  show "dom (makeBaseLabel a) =
     {''hpa_name'', ''hpa_namespace'', ''ref_kind'', ''ref_name'', ''ref_apiversion''}"
    by (auto simp: makeBaseLabel_def)
  show "k = [meta_Name (ObjectMeta a), meta_Namespace (ObjectMeta a),
          ref_Kind (ScaleTargetRef (Spec a)), ref_Name (ScaleTargetRef (Spec a)),
          ref_APIVersion (ScaleTargetRef (Spec a))]"
    unfolding k_def by (simp add: labelValues_base)
  show rep: "projectReplicas (makeBaseLabel a) a reg = Inr after"
    unfolding after_def k_def by (rule projectReplicas_ok)
  {
    assume run: "projectHpa a reg = Inr reg'"
    show "reg' HpaCurrentPodsNum = after HpaCurrentPodsNum"
      by (rule projectHpa_replica_gauges [OF run _ rep]) simp
    show "reg' HpaDesiredPodsNum = after HpaDesiredPodsNum"
      by (rule projectHpa_replica_gauges [OF run _ rep]) simp
    show "reg' HpaMinPodsNum = after HpaMinPodsNum"
      by (rule projectHpa_replica_gauges [OF run _ rep]) simp
    show "reg' HpaMaxPodsNum = after HpaMaxPodsNum"
      by (rule projectHpa_replica_gauges [OF run _ rep]) simp
    show "reg' HpaLastScaleSecond = after HpaLastScaleSecond"
      by (rule projectHpa_replica_gauges [OF run _ rep]) simp
  }
  {
    assume r: "reg = ResetAllMetric reg0"
    show "after HpaCurrentPodsNum \<noteq> Map.empty"
      by (simp add: after_def)
    show "after HpaDesiredPodsNum \<noteq> Map.empty"
      by (simp add: after_def)
    show "after HpaMaxPodsNum \<noteq> Map.empty"
      by (simp add: after_def)
    show "(after HpaMinPodsNum \<noteq> Map.empty) = (MinReplicas (Spec a) \<noteq> None)"
      by (simp add: after_def r ResetAllMetric_empty split: option.splits)
    show "(after HpaLastScaleSecond \<noteq> Map.empty) = (LastScaleTime (Status a) \<noteq> None)"
      by (simp add: after_def r ResetAllMetric_empty split: option.splits)
  }
  {
    assume sc: "meta_Name (ObjectMeta a) = ''web'' \<and> meta_Namespace (ObjectMeta a) = ''prod''
       \<and> MinReplicas (Spec a) = Some 2 \<and> MaxReplicas (Spec a) = 10
       \<and> CurrentReplicas (Status a) = 3 \<and> LastScaleTime (Status a) = None
       \<and> Metrics (Spec a) = [] \<and> CurrentMetrics (Status a) = []
       \<and> Conditions (Status a) = []"
    have "projectHpa a (\<lambda>g. Map.empty) =
          Inr ((\<lambda>g. Map.empty)
            (HpaCurrentPodsNum := [k \<mapsto> 3],
             HpaDesiredPodsNum := [k \<mapsto> real_of_int (DesiredReplicas (Status a))],
             HpaMinPodsNum := [k \<mapsto> 2],
             HpaMaxPodsNum := [k \<mapsto> 10]))"
      using sc unfolding k_def
      by (simp add: projectHpa_def Let_def projectReplicas_ok bindE_def)
        (simp add: fun_eq_iff)
    then show "forRange projectHpa [a] (ResetAllMetric reg0) =
          Inr ((\<lambda>g. Map.empty)
            (HpaCurrentPodsNum := [k \<mapsto> 3],
             HpaDesiredPodsNum := [k \<mapsto> real_of_int (DesiredReplicas (Status a))],
             HpaMinPodsNum := [k \<mapsto> 2],
             HpaMaxPodsNum := [k \<mapsto> 10]))"
      by (simp add: ResetAllMetric_empty)
  }
qed

theorem replica_gauges_witness:
  "projectHpa web (ResetAllMetric (\<lambda>g. Map.empty)) =
     Inr ((\<lambda>g. Map.empty)
       (HpaCurrentPodsNum := [[''web'', ''prod'', ''Deployment'', ''web'', ''apps/v1''] \<mapsto> 3],
        HpaDesiredPodsNum := [[''web'', ''prod'', ''Deployment'', ''web'', ''apps/v1''] \<mapsto> 3],
        HpaMinPodsNum := [[''web'', ''prod'', ''Deployment'', ''web'', ''apps/v1''] \<mapsto> 2],
        HpaMaxPodsNum := [[''web'', ''prod'', ''Deployment'', ''web'', ''apps/v1''] \<mapsto> 10]))
   \<and> forRange projectHpa [web] (ResetAllMetric (\<lambda>g. Map.empty)) =
     Inr ((\<lambda>g. Map.empty)
       (HpaCurrentPodsNum := [[''web'', ''prod'', ''Deployment'', ''web'', ''apps/v1''] \<mapsto> 3],
        HpaDesiredPodsNum := [[''web'', ''prod'', ''Deployment'', ''web'', ''apps/v1''] \<mapsto> 3],
        HpaMinPodsNum := [[''web'', ''prod'', ''Deployment'', ''web'', ''apps/v1''] \<mapsto> 2],
        HpaMaxPodsNum := [[''web'', ''prod'', ''Deployment'', ''web'', ''apps/v1''] \<mapsto> 10]))"
proof -
  have sc: "meta_Name (ObjectMeta web) = ''web'' \<and> meta_Namespace (ObjectMeta web) = ''prod''
       \<and> MinReplicas (Spec web) = Some 2 \<and> MaxReplicas (Spec web) = 10
       \<and> CurrentReplicas (Status web) = 3 \<and> LastScaleTime (Status web) = None
       \<and> Metrics (Spec web) = [] \<and> CurrentMetrics (Status web) = []
       \<and> Conditions (Status web) = []"
    by (simp add: web_def)
  have k: "labelValues HpaCurrentPodsNum (makeBaseLabel web) =
      [''web'', ''prod'', ''Deployment'', ''web'', ''apps/v1'']"
    using replica_gauges [of web] by (simp add: web_def)
  have d: "DesiredReplicas (Status web) = 3"
    by (simp add: web_def)
  have loop: "forRange projectHpa [web] (ResetAllMetric (\<lambda>g. Map.empty)) =
     Inr ((\<lambda>g. Map.empty)
       (HpaCurrentPodsNum := [[''web'', ''prod'', ''Deployment'', ''web'', ''apps/v1''] \<mapsto> 3],
        HpaDesiredPodsNum := [[''web'', ''prod'', ''Deployment'', ''web'', ''apps/v1''] \<mapsto> 3],
        HpaMinPodsNum := [[''web'', ''prod'', ''Deployment'', ''web'', ''apps/v1''] \<mapsto> 2],
        HpaMaxPodsNum := [[''web'', ''prod'', ''Deployment'', ''web'', ''apps/v1''] \<mapsto> 10]))"
    using replica_gauges [of web _ _ "\<lambda>g. Map.empty"] sc by (simp only: k d) simp
  then show ?thesis
    by (simp split: sum.splits)
qed

subsection \<open>Sentinel names\<close>

text \<open>
  C9, as stated, says that the pods, resource and external extractors put the sentinel \<open>-\<close>
  in both the name and the metric name. It fails: a Pods entry keeps its own metric name, and
  a Resource entry is named after its resource.
\<close>

theorem sentinel_both_fields_counterexample:
  "\<not> (Name (ParsePodsSpec \<lparr>pms_MetricName = ''qps'', pms_TargetAverageValue = 1000\<rparr>) = ''-''
       \<and> MetricName (ParsePodsSpec \<lparr>pms_MetricName = ''qps'', pms_TargetAverageValue = 1000\<rparr>)
           = ''-'')
   \<and> ParseResourceSpec
        \<lparr>rms_Name = ''cpu'', rms_TargetAverageUtilization = Some 80,
         rms_TargetAverageValue = None\<rparr> =
       Inr \<lparr>Kind = ''Resource'', Name = ''cpu'', MetricName = ''-'', Value = 80\<rparr>
   \<and> ''cpu'' \<noteq> ''-''"
  by (simp add: ParsePodsSpec_def ParseResourceSpec_def)

text \<open>
  C9, amended. For every Pods and every External entry the record's name is the sentinel
  \<open>-\<close> and its metric name is the entry's own metric name; for every Resource entry the
  record's metric name is the sentinel \<open>-\<close> and its name is the resource's name. This holds
  for the target extractors (whenever they return a record) and for the status extractors.
\<close>

theorem sentinel_per_variant:
  "Name (ParsePodsSpec p) = ''-'' \<and> MetricName (ParsePodsSpec p) = pms_MetricName p
   \<and> Name (ParsePodsStatus p') = ''-'' \<and> MetricName (ParsePodsStatus p') = pst_MetricName p'
   \<and> (ParseResourceSpec r = Inr c \<longrightarrow> Name c = rms_Name r \<and> MetricName c = ''-'')
   \<and> Name (ParseResourceStatus r') = rst_Name r' \<and> MetricName (ParseResourceStatus r') = ''-''
   \<and> (ParseExternalSpec x = Inr d \<longrightarrow> Name d = ''-'' \<and> MetricName d = ems_MetricName x)
   \<and> Name (ParseExternalStatus x') = ''-''
   \<and> MetricName (ParseExternalStatus x') = est_MetricName x'"
  by (auto simp: ParsePodsSpec_def ParsePodsStatus_def ParseResourceSpec_def
        ParseResourceStatus_def ParseExternalSpec_def ParseExternalStatus_def MilliValue_def
      split: if_splits sum.splits option.splits)

theorem sentinel_per_variant_witness:
  "ParseResourceSpec
     \<lparr>rms_Name = ''cpu'', rms_TargetAverageUtilization = Some 80,
      rms_TargetAverageValue = None\<rparr> =
     Inr \<lparr>Kind = ''Resource'', Name = ''cpu'', MetricName = ''-'', Value = 80\<rparr>
   \<and> Name \<lparr>Kind = ''Resource'', Name = ''cpu'', MetricName = ''-'', Value = 80\<rparr> = ''cpu''
   \<and> MetricName \<lparr>Kind = ''Resource'', Name = ''cpu'', MetricName = ''-'', Value = 80\<rparr> = ''-''
   \<and> ParseExternalSpec
     \<lparr>ems_MetricName = ''queue_depth'', ems_TargetValue = Some 2000,
      ems_TargetAverageValue = None\<rparr> =
     Inr \<lparr>Kind = ''External'', Name = ''-'', MetricName = ''queue_depth'', Value = 2\<rparr>
   \<and> Name \<lparr>Kind = ''External'', Name = ''-'', MetricName = ''queue_depth'', Value = 2\<rparr> = ''-''
   \<and> MetricName \<lparr>Kind = ''External'', Name = ''-'', MetricName = ''queue_depth'', Value = 2\<rparr>
       = ''queue_depth''"
proof -
  have r: "ParseResourceSpec
     \<lparr>rms_Name = ''cpu'', rms_TargetAverageUtilization = Some 80,
      rms_TargetAverageValue = None\<rparr> =
     Inr \<lparr>Kind = ''Resource'', Name = ''cpu'', MetricName = ''-'', Value = 80\<rparr>"
    by (simp add: ParseResourceSpec_def)
  have x: "ParseExternalSpec
     \<lparr>ems_MetricName = ''queue_depth'', ems_TargetValue = Some 2000,
      ems_TargetAverageValue = None\<rparr> =
     Inr \<lparr>Kind = ''External'', Name = ''-'', MetricName = ''queue_depth'', Value = 2\<rparr>"
    by (simp add: ParseExternalSpec_def MilliValue_def)
  from r x sentinel_per_variant
      [of _ _ "\<lparr>rms_Name = ''cpu'', rms_TargetAverageUtilization = Some 80,
            rms_TargetAverageValue = None\<rparr>"
          "\<lparr>Kind = ''Resource'', Name = ''cpu'', MetricName = ''-'', Value = 80\<rparr>" _
          "\<lparr>ems_MetricName = ''queue_depth'', ems_TargetValue = Some 2000,
            ems_TargetAverageValue = None\<rparr>"
          "\<lparr>Kind = ''External'', Name = ''-'', MetricName = ''queue_depth'', Value = 2\<rparr>"]
  show ?thesis by simp
qed

subsection \<open>Target and status extractors side by side\<close>

text \<open>
  C2. A target entry and a status entry of the same kind that carry the same quantity of
  \<open>q\<close> milli-units both yield the value \<open>q / 1000\<close>: for the Object kind the target and
  the current value, for the Pods kind the average value, for the Resource kind the average
  value of an entry that has no utilization, and for the External kind the average value if
  the entry has one and its target or current value otherwise. A Resource entry carries
  either a utilization or an average value as its reading; entries that carry the same
  utilization \<open>u\<close> both yield \<open>u\<close>, so the two extractors agree there as well.
\<close>

theorem spec_status_agree:
  "(oms_TargetValue os = q \<and> ost_CurrentValue ot = q \<longrightarrow>
      Value (ParseObjectSpec os) = real_of_int q / 1000
      \<and> Value (ParseObjectStatus ot) = real_of_int q / 1000)
   \<and> (pms_TargetAverageValue ps = q \<and> pst_CurrentAverageValue pt = q \<longrightarrow>
      Value (ParsePodsSpec ps) = real_of_int q / 1000
      \<and> Value (ParsePodsStatus pt) = real_of_int q / 1000)
   \<and> (rms_TargetAverageUtilization rs = None \<and> rms_TargetAverageValue rs = Some q
       \<and> rst_CurrentAverageUtilization rt = None \<and> rst_CurrentAverageValue rt = q \<longrightarrow>
      ParseResourceSpec rs =
        Inr \<lparr>Kind = ''Resource'', Name = rms_Name rs, MetricName = ''-'',
             Value = real_of_int q / 1000\<rparr>
      \<and> Value (ParseResourceStatus rt) = real_of_int q / 1000)
   \<and> (rms_TargetAverageUtilization rs = Some u \<and> rst_CurrentAverageUtilization rt = Some u \<longrightarrow>
      ParseResourceSpec rs =
        Inr \<lparr>Kind = ''Resource'', Name = rms_Name rs, MetricName = ''-'',
             Value = real_of_int u\<rparr>
      \<and> Value (ParseResourceStatus rt) = real_of_int u)
   \<and> ((case ems_TargetAverageValue xs of None \<Rightarrow> ems_TargetValue xs | Some av \<Rightarrow> Some av)
         = Some q
       \<and> (case est_CurrentAverageValue xt of None \<Rightarrow> est_CurrentValue xt | Some av \<Rightarrow> av) = q
       \<longrightarrow>
      ParseExternalSpec xs =
        Inr \<lparr>Kind = ''External'', Name = ''-'', MetricName = ems_MetricName xs,
             Value = real_of_int q / 1000\<rparr>
      \<and> Value (ParseExternalStatus xt) = real_of_int q / 1000)"
  by (auto simp: ParseObjectSpec_def ParseObjectStatus_def ParsePodsSpec_def ParsePodsStatus_def
      ParseResourceSpec_def ParseResourceStatus_def ParseExternalSpec_def
      ParseExternalStatus_def MilliValue_def split: option.splits)

theorem spec_status_agree_witness:
  "Value (ParseObjectSpec
      \<lparr>oms_Target = \<lparr>ref_Kind = ''Service'', ref_Name = ''front'', ref_APIVersion = ''v1''\<rparr>,
       oms_MetricName = ''requests'', oms_TargetValue = 2500\<rparr>) = 2.5
   \<and> Value (ParseObjectStatus
      \<lparr>ost_Target = \<lparr>ref_Kind = ''Service'', ref_Name = ''front'', ref_APIVersion = ''v1''\<rparr>,
       ost_MetricName = ''requests'', ost_CurrentValue = 2500\<rparr>) = 2.5
   \<and> Value (ParsePodsSpec \<lparr>pms_MetricName = ''qps'', pms_TargetAverageValue = 2500\<rparr>) = 2.5
   \<and> Value (ParsePodsStatus \<lparr>pst_MetricName = ''qps'', pst_CurrentAverageValue = 2500\<rparr>) = 2.5
   \<and> ParseResourceSpec
        \<lparr>rms_Name = ''cpu'', rms_TargetAverageUtilization = None,
         rms_TargetAverageValue = Some 2500\<rparr> =
       Inr \<lparr>Kind = ''Resource'', Name = ''cpu'', MetricName = ''-'', Value = 2.5\<rparr>
   \<and> Value (ParseResourceStatus
        \<lparr>rst_Name = ''cpu'', rst_CurrentAverageUtilization = None,
         rst_CurrentAverageValue = 2500\<rparr>) = 2.5
   \<and> ParseResourceSpec
        \<lparr>rms_Name = ''cpu'', rms_TargetAverageUtilization = Some 80,
         rms_TargetAverageValue = None\<rparr> =
       Inr \<lparr>Kind = ''Resource'', Name = ''cpu'', MetricName = ''-'', Value = 80\<rparr>
   \<and> Value (ParseResourceStatus
        \<lparr>rst_Name = ''cpu'', rst_CurrentAverageUtilization = Some 80,
         rst_CurrentAverageValue = 2500\<rparr>) = 80
   \<and> ParseExternalSpec
        \<lparr>ems_MetricName = ''queue_depth'', ems_TargetValue = Some 2500,
         ems_TargetAverageValue = None\<rparr> =
       Inr \<lparr>Kind = ''External'', Name = ''-'', MetricName = ''queue_depth'', Value = 2.5\<rparr>
   \<and> Value (ParseExternalStatus
        \<lparr>est_MetricName = ''queue_depth'', est_CurrentValue = 2500,
         est_CurrentAverageValue = None\<rparr>) = 2.5"
  using
    spec_status_agree
      [of "\<lparr>oms_Target = \<lparr>ref_Kind = ''Service'', ref_Name = ''front'', ref_APIVersion = ''v1''\<rparr>,
            oms_MetricName = ''requests'', oms_TargetValue = 2500\<rparr>"
          2500
          "\<lparr>ost_Target = \<lparr>ref_Kind = ''Service'', ref_Name = ''front'', ref_APIVersion = ''v1''\<rparr>,
            ost_MetricName = ''requests'', ost_CurrentValue = 2500\<rparr>"
          "\<lparr>pms_MetricName = ''qps'', pms_TargetAverageValue = 2500\<rparr>"
          "\<lparr>pst_MetricName = ''qps'', pst_CurrentAverageValue = 2500\<rparr>"
          "\<lparr>rms_Name = ''cpu'', rms_TargetAverageUtilization = None,
            rms_TargetAverageValue = Some 2500\<rparr>"
          "\<lparr>rst_Name = ''cpu'', rst_CurrentAverageUtilization = None,
            rst_CurrentAverageValue = 2500\<rparr>"
          80
          "\<lparr>ems_MetricName = ''queue_depth'', ems_TargetValue = Some 2500,
            ems_TargetAverageValue = None\<rparr>"
          "\<lparr>est_MetricName = ''queue_depth'', est_CurrentValue = 2500,
            est_CurrentAverageValue = None\<rparr>"]
    spec_status_agree
      [of _ 2500 _ _ _
          "\<lparr>rms_Name = ''cpu'', rms_TargetAverageUtilization = Some 80,
            rms_TargetAverageValue = None\<rparr>"
          "\<lparr>rst_Name = ''cpu'', rst_CurrentAverageUtilization = Some 80,
            rst_CurrentAverageValue = 2500\<rparr>"
          80]
  by simp

subsection \<open>The two loops\<close>

text \<open>
  C3. When the fetch returns an error, the pass through the metrics loop logs the error and
  leaves the registry as it was: no reset, no projection. It does not sleep: the pass ends
  with the logged line, and the rest of the run starts at once from the same registry. In a
  run whose first fetch fails and whose second succeeds, the only sleep is the one after the
  second pass.
\<close>

theorem fetch_error_retries_without_sleep:
  "metricsIteration fl (hpa, Some e) reg = ([GetHpaListV2, LogErrorln e], Inr reg)
   \<and> Sleep (MetricsInterval fl) \<notin> set (fst (metricsIteration fl (hpa, Some e) reg))
   \<and> metricsLoop fl ((hpa, Some e) # rs) reg =
      (GetHpaListV2 # LogErrorln e # fst (metricsLoop fl rs reg), snd (metricsLoop fl rs reg))
   \<and> metricsLoop defaultFlags
        [([], Some (ServiceError ''connection refused'')), ([], None)] reg =
      ([GetHpaListV2, LogErrorln (ServiceError ''connection refused''),
        GetHpaListV2, Sleep 30], Inr (ResetAllMetric reg))"
  by (simp add: metricsIteration_def defaultFlags_def split: prod.splits)

text \<open>
  C4. When the append is refused, \<open>PutHPAConditionToCWLog\<close> returns the store's error, and
  the exporter itself keeps no token. The logging loop, however, drops what the call
  returns: whatever the outcome, the pass consists of the fetch and the sleep, and no line
  is logged. Below, the client answers the append with a sequence-token conflict; the next
  pass describes the stream and appends again.
\<close>

theorem append_error_is_dropped:
  "loggingIteration (fl\<lparr>LoggingTo := ''cwlogs''\<rparr>) c marshal now (hpa, None) s =
     ([GetHpaListV2, Sleep (LoggingInterval fl)],
      snd (PutHPAConditionToCWLog (fl\<lparr>LoggingTo := ''cwlogs''\<rparr>) c marshal now hpa s))
   \<and> PutHPAConditionToCWLog (defaultFlags\<lparr>LoggingTo := ''cwlogs''\<rparr>)
        (racingClient ''condition-log'' ''t41'') (\<lambda>c. Inr ''{}'') 1700000000 [web] [] =
      (Some (ServiceError ''InvalidSequenceTokenException''),
       [DescribeLogStreamsRequest ''hpa-exporter'' ''condition-log'',
        PutLogEventsRequest
          \<lparr>LogEvents = [\<lparr>ile_Message = ''{}'', ile_Timestamp = 1700000000000\<rparr>],
           LogGroupName = ''hpa-exporter'', LogStreamName = ''condition-log'',
           SequenceToken = Some ''t41''\<rparr>])
   \<and> fst (loggingIteration (defaultFlags\<lparr>LoggingTo := ''cwlogs''\<rparr>)
        (racingClient ''condition-log'' ''t41'') (\<lambda>c. Inr ''{}'') 1700000000 ([web], None) []) =
      [GetHpaListV2, Sleep 60]
   \<and> loggingLoop (defaultFlags\<lparr>LoggingTo := ''cwlogs''\<rparr>)
        (racingClient ''condition-log'' ''t41'') (\<lambda>c. Inr ''{}'')
        [(1700000000, ([web], None)), (1700000060, ([web], None))] [] =
      ([GetHpaListV2, Sleep 60, GetHpaListV2, Sleep 60],
       [DescribeLogStreamsRequest ''hpa-exporter'' ''condition-log'',
        PutLogEventsRequest
          \<lparr>LogEvents = [\<lparr>ile_Message = ''{}'', ile_Timestamp = 1700000000000\<rparr>],
           LogGroupName = ''hpa-exporter'', LogStreamName = ''condition-log'',
           SequenceToken = Some ''t41''\<rparr>,
        DescribeLogStreamsRequest ''hpa-exporter'' ''condition-log'',
        PutLogEventsRequest
          \<lparr>LogEvents = [\<lparr>ile_Message = ''{}'', ile_Timestamp = 1700000060000\<rparr>],
           LogGroupName = ''hpa-exporter'', LogStreamName = ''condition-log'',
           SequenceToken = Some ''t41''\<rparr>])"
  by (simp add: loggingIteration_def PutHPAConditionToCWLog_def token_def racingClient_def
      defaultFlags_def HpaConditionJsonString_def split: prod.splits)

text \<open>
  C5. The store below has no stream named \<open>condition-log\<close>, the configured stream, but it
  has a stream \<open>condition-log-old\<close>. The description by prefix is not empty, so \<open>token\<close>
  sends no creation request and takes the other stream's token; the append then names a
  stream that does not exist and is refused. No stream is created and no batch is stored.
  (On a store where no stream name starts with the configured name the shipment creates the
  stream and appends one batch of one record, and a second shipment sends no creation
  request and carries the stream's token: \<open>ship_to_fresh_store\<close>, \<open>ship_again\<close>.)
\<close>

theorem prefix_match_skips_creation:
  "PutHPAConditionToCWLog defaultFlags storeClient (\<lambda>c. Inr ''{}'') 1700000000 [web]
     \<lparr>st_group = ''hpa-exporter'', st_streams = [(''condition-log-old'', [])],
      st_requests = []\<rparr> =
   (Some (ServiceError ''ResourceNotFoundException''),
    \<lparr>st_group = ''hpa-exporter'', st_streams = [(''condition-log-old'', [])],
     st_requests =
       [DescribeLogStreamsRequest ''hpa-exporter'' ''condition-log'',
        PutLogEventsRequest
          \<lparr>LogEvents = [\<lparr>ile_Message = ''{}'', ile_Timestamp = 1700000000000\<rparr>],
           LogGroupName = ''hpa-exporter'', LogStreamName = ''condition-log'',
           SequenceToken = None\<rparr>]\<rparr>)"
  by (simp add: PutHPAConditionToCWLog_def token_def storeClient_def
      storeDescribeLogStreams_def storePutLogEvents_def hasPrefix_def expectedToken_def
      defaultFlags_def HpaConditionJsonString_def Let_def)

end
